theory Spec2Isabelle
  imports Main
begin

section \<open>JavaScript values\<close>

text \<open>
  The server in \<^verbatim>\<open>index-basic.js\<close> receives tool arguments as parsed JSON and gets parsed
  JSON back from the remote API. A value is modelled as the code sees it: a JSON value, or
  \<^verbatim>\<open>undefined\<close> (the result of reading a property that is not there). A number is
  carried by the text that JavaScript writes for it, which is also its JSON text:
  \<^verbatim>\<open>123\<close>, \<^verbatim>\<open>-1.5\<close>, \<^verbatim>\<open>12345678901234567000\<close>, \<^verbatim>\<open>1e+21\<close>; zero, of either
  sign, is \<^verbatim>\<open>0\<close>. The program does nothing with a number but test it for zero and
  write it. An object is the list of its own properties in enumeration order, keys
  distinct. Characters are single code units.
\<close>

datatype jsval =
    Undefined
  | Null
  | Bool bool
  | Num string
  | Str string
  | Arr "jsval list"
  | Obj "(string \<times> jsval) list"

type_synonym js_object = "(string \<times> jsval) list"

text \<open>Truthiness, as tested by \<^verbatim>\<open>if (x)\<close> and \<^verbatim>\<open>x || y\<close>.\<close>

fun truthy :: "jsval \<Rightarrow> bool" where
  "truthy Undefined = False"
| "truthy Null = False"
| "truthy (Bool b) = b"
| "truthy (Num n) = (n \<noteq> ''0'')"
| "truthy (Str s) = (s \<noteq> [])"
| "truthy (Arr xs) = True"
| "truthy (Obj kvs) = True"

text \<open>Reading an own property of an object; a missing key reads as \<^verbatim>\<open>undefined\<close>.\<close>

definition lookup :: "js_object \<Rightarrow> string \<Rightarrow> jsval" where
  "lookup obj k = (case map_of obj k of None \<Rightarrow> Undefined | Some v \<Rightarrow> v)"

text \<open>
  Assigning a property (\<^verbatim>\<open>params.search = ...\<close>): an existing key keeps its place, a new
  key goes last.
\<close>

fun set_prop :: "js_object \<Rightarrow> string \<Rightarrow> jsval \<Rightarrow> js_object" where
  "set_prop [] k v = [(k, v)]"
| "set_prop (p # ps) k v = (if fst p = k then (k, v) # ps else p # set_prop ps k v)"

subsection \<open>Decimal rendering of a status code\<close>

text \<open>An HTTP status code is a number of three digits, written in full.\<close>

definition digit_char :: "nat \<Rightarrow> char" where
  "digit_char d =
     (if d = 0 then CHR ''0'' else if d = 1 then CHR ''1'' else if d = 2 then CHR ''2''
      else if d = 3 then CHR ''3'' else if d = 4 then CHR ''4'' else if d = 5 then CHR ''5''
      else if d = 6 then CHR ''6'' else if d = 7 then CHR ''7'' else if d = 8 then CHR ''8''
      else CHR ''9'')"

fun show_nat :: "nat \<Rightarrow> string" where
  "show_nat n = (if n < 10 then [digit_char n] else show_nat (n div 10) @ [digit_char (n mod 10)])"

declare show_nat.simps [simp del]

fun join :: "string \<Rightarrow> string list \<Rightarrow> string" where
  "join sep [] = []"
| "join sep [x] = x"
| "join sep (x # y # ys) = x @ sep @ join sep (y # ys)"

subsection \<open>Errors\<close>

text \<open>
  The protocol error codes of the SDK's \<^verbatim>\<open>ErrorCode\<close>; the program itself uses
  \<^verbatim>\<open>MethodNotFound\<close> and \<^verbatim>\<open>InternalError\<close> only.
\<close>

datatype error_code =
    ConnectionClosed
  | RequestTimeout
  | ParseError
  | InvalidRequest
  | MethodNotFound
  | InvalidParams
  | InternalError

text \<open>
  What a handler can throw: an \<^verbatim>\<open>McpError\<close> (code and message), an error of the HTTP
  client (with the response, status and body, when the client settled on one, and the client's
  own message), or a \<^verbatim>\<open>TypeError\<close> of the language.
\<close>

datatype js_error =
    McpError error_code string
  | AxiosError "(nat \<times> jsval) option" string
  | TypeError string

subsection \<open>String conversion\<close>

text \<open>
  \<^verbatim>\<open>${v}\<close> in a template literal. An array is its elements joined by commas, null and
  undefined elements empty. A plain object is \<^verbatim>\<open>[object Object]\<close>, unless it has an own
  property \<^verbatim>\<open>toString\<close>: a JSON value is never callable, so the conversion finds no
  method that returns a primitive and throws.
\<close>

fun to_string :: "jsval \<Rightarrow> js_error + string"
  and to_string_elems :: "jsval list \<Rightarrow> js_error + string list" where
  "to_string Undefined = Inr ''undefined''"
| "to_string Null = Inr ''null''"
| "to_string (Bool b) = Inr (if b then ''true'' else ''false'')"
| "to_string (Num n) = Inr n"
| "to_string (Str s) = Inr s"
| "to_string (Arr xs) =
     (case to_string_elems xs of Inl e \<Rightarrow> Inl e | Inr ss \<Rightarrow> Inr (join '','' ss))"
| "to_string (Obj kvs) =
     (if ''toString'' \<in> fst ` set kvs
      then Inl (TypeError ''Cannot convert object to primitive value'')
      else Inr ''[object Object]'')"
| "to_string_elems [] = Inr []"
| "to_string_elems (x # xs) =
     (case (if x = Undefined \<or> x = Null then Inr [] else to_string x) of
        Inl e \<Rightarrow> Inl e
      | Inr s \<Rightarrow> (case to_string_elems xs of Inl e \<Rightarrow> Inl e | Inr ss \<Rightarrow> Inr (s # ss)))"

subsection \<open>JSON serialisation\<close>

text \<open>
  \<^verbatim>\<open>JSON.stringify(value, null, 2)\<close>: strings quoted and escaped, two spaces of
  indentation per level, an empty array or object on one line. A property whose value is
  undefined is left out, an undefined array element is written \<^verbatim>\<open>null\<close>, and an
  undefined value at the top has no serialisation at all.
\<close>

definition hex_digit :: "nat \<Rightarrow> char" where
  "hex_digit d =
     (if d < 10 then digit_char d
      else if d = 10 then CHR ''a'' else if d = 11 then CHR ''b'' else if d = 12 then CHR ''c''
      else if d = 13 then CHR ''d'' else if d = 14 then CHR ''e'' else CHR ''f'')"

definition escape_char :: "char \<Rightarrow> string" where
  "escape_char c =
     (if c = CHR 0x22 then [CHR 0x5C, CHR 0x22]
      else if c = CHR 0x5C then [CHR 0x5C, CHR 0x5C]
      else if c = CHR 0x08 then [CHR 0x5C, CHR ''b'']
      else if c = CHR 0x0C then [CHR 0x5C, CHR ''f'']
      else if c = CHR 0x0A then [CHR 0x5C, CHR ''n'']
      else if c = CHR 0x0D then [CHR 0x5C, CHR ''r'']
      else if c = CHR 0x09 then [CHR 0x5C, CHR ''t'']
      else if (of_char c :: nat) < 32
        then [CHR 0x5C, CHR ''u'', CHR ''0'', CHR ''0'',
              hex_digit (of_char c div 16), hex_digit (of_char c mod 16)]
      else [c])"

definition quote :: "string \<Rightarrow> string" where
  "quote s = CHR 0x22 # concat (map escape_char s) @ [CHR 0x22]"

definition newline :: string where
  "newline = [CHR 0x0A]"

fun serialize :: "string \<Rightarrow> jsval \<Rightarrow> string option" where
  "serialize ind Undefined = None"
| "serialize ind Null = Some ''null''"
| "serialize ind (Bool b) = Some (if b then ''true'' else ''false'')"
| "serialize ind (Num n) = Some n"
| "serialize ind (Str s) = Some (quote s)"
| "serialize ind (Arr xs) =
     (let parts = map (\<lambda>x. case serialize (ind @ ''  '') x of None \<Rightarrow> ''null'' | Some s \<Rightarrow> s) xs
      in Some (if parts = [] then ''[]''
               else ''['' @ newline @ (ind @ ''  '')
                    @ join ('','' @ newline @ (ind @ ''  '')) parts
                    @ newline @ ind @ '']''))"
| "serialize ind (Obj kvs) =
     (let parts = concat (map (\<lambda>(k, v). case serialize (ind @ ''  '') v of
                                            None \<Rightarrow> []
                                          | Some s \<Rightarrow> [quote k @ '': '' @ s]) kvs)
      in Some (if parts = [] then ''{}''
               else ''{'' @ newline @ (ind @ ''  '')
                    @ join ('','' @ newline @ (ind @ ''  '')) parts
                    @ newline @ ind @ ''}''))"

definition JSON_stringify :: "jsval \<Rightarrow> string option" where
  "JSON_stringify v = serialize [] v"

section \<open>The HTTP client\<close>

text \<open>
  One call handed to the HTTP client: method, path (already interpolated), the
  \<^verbatim>\<open>params\<close> object when one is passed, the body object when one is passed.
\<close>

datatype http_method = GET | POST | PATCH | PUT | DELETE

record outbound_call =
  oc_method :: http_method
  oc_path :: string
  oc_query :: "js_object option"
  oc_body :: "js_object option"

text \<open>
  The HTTP client and the network behind it are outside the program. What the program
  sees of a call is the outcome the client settles on: the response that ends the
  exchange, with its status and parsed body, or no response at all (a transport failure,
  with the client's message). The client follows redirects itself, so an answer of the
  remote API with a 3xx status and a \<^verbatim>\<open>Location\<close> header is not an outcome: the
  outcome is the response that ends the chain, or no response when the chain is too
  long. A settled response with a 3xx status is one the client did not follow.
\<close>

datatype http_outcome = Settled nat jsval | NoResponse string

type_synonym http_client = "outbound_call \<Rightarrow> http_outcome"

text \<open>
  An asynchronous step of a handler: the calls it handed to the HTTP client, in order, and
  the value it returned or the error it threw.
\<close>

type_synonym 'a action = "outbound_call list \<times> (js_error + 'a)"

definition ret :: "'a \<Rightarrow> 'a action" where
  "ret x = ([], Inr x)"

definition throw :: "js_error \<Rightarrow> 'a action" where
  "throw e = ([], Inl e)"

definition and_then :: "'a action \<Rightarrow> ('a \<Rightarrow> 'b action) \<Rightarrow> 'b action" where
  "and_then m f =
     (case m of
        (calls, Inl e) \<Rightarrow> (calls, Inl e)
      | (calls, Inr x) \<Rightarrow> (case f x of (calls', r) \<Rightarrow> (calls @ calls', r)))"

text \<open>
  The client resolves with the response it settled on when the status is from 200 to 299,
  and rejects otherwise (the default \<^verbatim>\<open>validateStatus\<close>); the rejection carries the
  response when there is one. The model returns the body, the only part of the response
  the handlers read.
\<close>

definition request :: "http_client \<Rightarrow> outbound_call \<Rightarrow> jsval action" where
  "request client oc =
     ([oc],
      case client oc of
        Settled status data \<Rightarrow>
          if 200 \<le> status \<and> status < 300 then Inr data
          else Inl (AxiosError (Some (status, data))
                     (''Request failed with status code '' @ show_nat status))
      | NoResponse msg \<Rightarrow> Inl (AxiosError None msg))"

definition api_get :: "http_client \<Rightarrow> string \<Rightarrow> js_object option \<Rightarrow> jsval action" where
  "api_get client url params =
     request client \<lparr>oc_method = GET, oc_path = url, oc_query = params, oc_body = None\<rparr>"

definition api_post :: "http_client \<Rightarrow> string \<Rightarrow> js_object \<Rightarrow> jsval action" where
  "api_post client url data =
     request client \<lparr>oc_method = POST, oc_path = url, oc_query = None, oc_body = Some data\<rparr>"

definition api_patch :: "http_client \<Rightarrow> string \<Rightarrow> js_object \<Rightarrow> jsval action" where
  "api_patch client url data =
     request client \<lparr>oc_method = PATCH, oc_path = url, oc_query = None, oc_body = Some data\<rparr>"

definition api_put :: "http_client \<Rightarrow> string \<Rightarrow> jsval action" where
  "api_put client url =
     request client \<lparr>oc_method = PUT, oc_path = url, oc_query = None, oc_body = None\<rparr>"

section \<open>The tool handlers\<close>

text \<open>
  \<^verbatim>\<open>request.params.arguments\<close> is optional in the protocol: the handlers receive an
  object, or \<^verbatim>\<open>undefined\<close> (here \<open>None\<close>), and reading a property of undefined throws.
\<close>

definition cannot_read :: "string \<Rightarrow> string \<Rightarrow> string" where
  "cannot_read what k =
     ''Cannot read properties of '' @ what @ '' (reading '' @ [CHR 0x27] @ k @ [CHR 0x27] @ '')''"

definition arg :: "js_object option \<Rightarrow> string \<Rightarrow> jsval action" where
  "arg args k =
     (case args of
        None \<Rightarrow> throw (TypeError (cannot_read ''undefined'' k))
      | Some obj \<Rightarrow> ret (lookup obj k))"

text \<open>\<^verbatim>\<open>${args.k}\<close> inside a path template.\<close>

definition interp :: "js_object option \<Rightarrow> string \<Rightarrow> string action" where
  "interp args k = and_then (arg args k) (\<lambda>v. ([], to_string v))"

text \<open>\<^verbatim>\<open>if (args.k) params.k = args.k;\<close>\<close>

definition copy_if_truthy :: "js_object option \<Rightarrow> string \<Rightarrow> js_object \<Rightarrow> js_object action" where
  "copy_if_truthy args k params =
     and_then (arg args k) (\<lambda>v. ret (if truthy v then set_prop params k v else params))"

text \<open>The success envelope every handler returns: one text block, the body serialised.\<close>

record content_block =
  cb_type :: string
  cb_text :: "string option"

record envelope =
  content :: "content_block list"

definition text_result :: "jsval \<Rightarrow> envelope" where
  "text_result data = \<lparr>content = [\<lparr>cb_type = ''text'', cb_text = JSON_stringify data\<rparr>]\<rparr>"

text \<open>
  Each handler follows its source statement by statement: the statements before the
  \<^verbatim>\<open>await\<close> compute the call, the client performs it, and the body of the response is
  wrapped. In \<^verbatim>\<open>api.get(url, { params })\<close> the template literal is evaluated after
  \<^verbatim>\<open>params\<close> is built; in a call with an object literal the path comes first.
\<close>

definition listServers :: "http_client \<Rightarrow> js_object option \<Rightarrow> envelope action" where
  "listServers client args =
     and_then (copy_if_truthy args ''search'' []) (\<lambda>params.
     and_then (copy_if_truthy args ''page'' params) (\<lambda>params.
     and_then (api_get client ''/servers'' (Some params)) (\<lambda>data.
     ret (text_result data))))"

definition getServer :: "http_client \<Rightarrow> js_object option \<Rightarrow> envelope action" where
  "getServer client args =
     and_then (interp args ''serverId'') (\<lambda>serverId.
     and_then (api_get client (''/servers/'' @ serverId) None) (\<lambda>data.
     ret (text_result data)))"

definition getServerStats :: "http_client \<Rightarrow> js_object option \<Rightarrow> envelope action" where
  "getServerStats client args =
     and_then (interp args ''serverId'') (\<lambda>serverId.
     and_then (api_get client (''/servers/'' @ serverId @ ''/stats'') None) (\<lambda>data.
     ret (text_result data)))"

definition listWebapps :: "http_client \<Rightarrow> js_object option \<Rightarrow> envelope action" where
  "listWebapps client args =
     and_then (copy_if_truthy args ''search'' []) (\<lambda>params.
     and_then (copy_if_truthy args ''page'' params) (\<lambda>params.
     and_then (interp args ''serverId'') (\<lambda>serverId.
     and_then (api_get client (''/servers/'' @ serverId @ ''/webapps'') (Some params)) (\<lambda>data.
     ret (text_result data)))))"

definition getWebapp :: "http_client \<Rightarrow> js_object option \<Rightarrow> envelope action" where
  "getWebapp client args =
     and_then (interp args ''serverId'') (\<lambda>serverId.
     and_then (interp args ''webappId'') (\<lambda>webappId.
     and_then (api_get client (''/servers/'' @ serverId @ ''/webapps/'' @ webappId) None) (\<lambda>data.
     ret (text_result data))))"

definition createWebapp :: "http_client \<Rightarrow> js_object option \<Rightarrow> envelope action" where
  "createWebapp client args =
     and_then (interp args ''serverId'') (\<lambda>serverId.
     and_then (arg args ''name'') (\<lambda>name.
     and_then (arg args ''domainName'') (\<lambda>domainName.
     and_then (arg args ''user'') (\<lambda>user.
     and_then (arg args ''phpVersion'') (\<lambda>phpVersion.
     and_then (arg args ''stack'') (\<lambda>stack.
     and_then (arg args ''stackMode'') (\<lambda>stackMode.
     and_then (api_post client (''/servers/'' @ serverId @ ''/webapps/custom'')
                 [(''name'', name), (''domainName'', domainName), (''user'', user),
                  (''phpVersion'', phpVersion), (''stack'', stack), (''stackMode'', stackMode)])
       (\<lambda>data.
     ret (text_result data)))))))))"

definition listDatabases :: "http_client \<Rightarrow> js_object option \<Rightarrow> envelope action" where
  "listDatabases client args =
     and_then (copy_if_truthy args ''search'' []) (\<lambda>params.
     and_then (copy_if_truthy args ''page'' params) (\<lambda>params.
     and_then (interp args ''serverId'') (\<lambda>serverId.
     and_then (api_get client (''/servers/'' @ serverId @ ''/databases'') (Some params)) (\<lambda>data.
     ret (text_result data)))))"

definition createDatabase :: "http_client \<Rightarrow> js_object option \<Rightarrow> envelope action" where
  "createDatabase client args =
     and_then (arg args ''name'') (\<lambda>name.
     and_then (copy_if_truthy args ''collation'' [(''name'', name)]) (\<lambda>data.
     and_then (interp args ''serverId'') (\<lambda>serverId.
     and_then (api_post client (''/servers/'' @ serverId @ ''/databases'') data) (\<lambda>data.
     ret (text_result data)))))"

definition listDatabaseUsers :: "http_client \<Rightarrow> js_object option \<Rightarrow> envelope action" where
  "listDatabaseUsers client args =
     and_then (copy_if_truthy args ''search'' []) (\<lambda>params.
     and_then (copy_if_truthy args ''page'' params) (\<lambda>params.
     and_then (interp args ''serverId'') (\<lambda>serverId.
     and_then (api_get client (''/servers/'' @ serverId @ ''/databaseusers'') (Some params)) (\<lambda>data.
     ret (text_result data)))))"

definition createDatabaseUser :: "http_client \<Rightarrow> js_object option \<Rightarrow> envelope action" where
  "createDatabaseUser client args =
     and_then (interp args ''serverId'') (\<lambda>serverId.
     and_then (arg args ''username'') (\<lambda>username.
     and_then (arg args ''password'') (\<lambda>password.
     and_then (api_post client (''/servers/'' @ serverId @ ''/databaseusers'')
                 [(''username'', username), (''password'', password)]) (\<lambda>data.
     ret (text_result data)))))"

definition listServices :: "http_client \<Rightarrow> js_object option \<Rightarrow> envelope action" where
  "listServices client args =
     and_then (interp args ''serverId'') (\<lambda>serverId.
     and_then (api_get client (''/servers/'' @ serverId @ ''/services'') None) (\<lambda>data.
     ret (text_result data)))"

definition controlService :: "http_client \<Rightarrow> js_object option \<Rightarrow> envelope action" where
  "controlService client args =
     and_then (interp args ''serverId'') (\<lambda>serverId.
     and_then (arg args ''action'') (\<lambda>action.
     and_then (arg args ''service'') (\<lambda>service.
     and_then (api_patch client (''/servers/'' @ serverId @ ''/services'')
                 [(''action'', action), (''realName'', service)]) (\<lambda>data.
     ret (text_result data)))))"

definition deployGit :: "http_client \<Rightarrow> js_object option \<Rightarrow> envelope action" where
  "deployGit client args =
     and_then (interp args ''serverId'') (\<lambda>serverId.
     and_then (interp args ''webappId'') (\<lambda>webappId.
     and_then (interp args ''gitId'') (\<lambda>gitId.
     and_then (api_put client (''/servers/'' @ serverId @ ''/webapps/'' @ webappId
                                @ ''/git/'' @ gitId @ ''/script'')) (\<lambda>data.
     ret (text_result data)))))"

section \<open>The dispatcher\<close>

text \<open>The \<^verbatim>\<open>switch\<close> on the tool name, with its \<^verbatim>\<open>default\<close> arm.\<close>

definition dispatch :: "http_client \<Rightarrow> string \<Rightarrow> js_object option \<Rightarrow> envelope action" where
  "dispatch client name args =
     (if name = ''list_servers'' then listServers client args
      else if name = ''get_server'' then getServer client args
      else if name = ''get_server_stats'' then getServerStats client args
      else if name = ''list_webapps'' then listWebapps client args
      else if name = ''get_webapp'' then getWebapp client args
      else if name = ''create_webapp'' then createWebapp client args
      else if name = ''list_databases'' then listDatabases client args
      else if name = ''create_database'' then createDatabase client args
      else if name = ''list_database_users'' then listDatabaseUsers client args
      else if name = ''create_database_user'' then createDatabaseUser client args
      else if name = ''list_services'' then listServices client args
      else if name = ''control_service'' then controlService client args
      else if name = ''deploy_git'' then deployGit client args
      else throw (McpError MethodNotFound (''Unknown tool: '' @ name)))"

text \<open>
  The \<^verbatim>\<open>catch\<close> block. An error that carries a response becomes an \<^verbatim>\<open>McpError\<close> with
  code \<^verbatim>\<open>InternalError\<close>, its message built from the body's \<^verbatim>\<open>message\<close> or, when that
  is falsy, from the client's message; any other error is thrown again as it is. Reading
  \<^verbatim>\<open>message\<close> off a body that is null or undefined throws inside the block, and so does
  the string conversion when it fails.
\<close>

definition data_message :: "jsval \<Rightarrow> js_error + jsval" where
  "data_message data =
     (case data of
        Undefined \<Rightarrow> Inl (TypeError (cannot_read ''undefined'' ''message''))
      | Null \<Rightarrow> Inl (TypeError (cannot_read ''null'' ''message''))
      | Obj kvs \<Rightarrow> Inr (lookup kvs ''message'')
      | _ \<Rightarrow> Inr Undefined)"

definition catch_block :: "js_error \<Rightarrow> js_error" where
  "catch_block error =
     (case error of
        AxiosError (Some (status, data)) msg \<Rightarrow>
          (case data_message data of
             Inl e \<Rightarrow> e
           | Inr m \<Rightarrow>
               (case to_string (if truthy m then m else Str msg) of
                  Inl e \<Rightarrow> e
                | Inr s \<Rightarrow> McpError InternalError (''RunCloud API Error: '' @ s)))
      | _ \<Rightarrow> error)"

definition callTool :: "http_client \<Rightarrow> string \<Rightarrow> js_object option \<Rightarrow> envelope action" where
  "callTool client name args =
     (case dispatch client name args of
        (calls, Inl e) \<Rightarrow> (calls, Inl (catch_block e))
      | (calls, Inr r) \<Rightarrow> (calls, Inr r))"

section \<open>The listing endpoint\<close>

text \<open>
  The answer to \<^verbatim>\<open>ListToolsRequestSchema\<close>, in the order of the source. Every
  \<^verbatim>\<open>inputSchema\<close> has type \<^verbatim>\<open>object\<close>; \<^verbatim>\<open>list_servers\<close> declares no
  \<^verbatim>\<open>required\<close> list at all.
\<close>

record property =
  p_name :: string
  p_type :: string
  p_enum :: "string list option"
  p_description :: string

record tool =
  t_name :: string
  t_description :: string
  t_properties :: "property list"
  t_required :: "string list option"

definition listTools :: "tool list" where
  "listTools =
     [\<lparr>t_name = ''list_servers'',
       t_description = ''List all servers in your RunCloud account'',
       t_properties =
         [\<lparr>p_name = ''search'', p_type = ''string'', p_enum = None,
           p_description = ''Search servers by name''\<rparr>,
          \<lparr>p_name = ''page'', p_type = ''number'', p_enum = None,
           p_description = ''Page number for pagination''\<rparr>],
       t_required = None\<rparr>,
      \<lparr>t_name = ''get_server'',
       t_description = ''Get detailed information about a specific server'',
       t_properties =
         [\<lparr>p_name = ''serverId'', p_type = ''number'', p_enum = None,
           p_description = ''The ID of the server''\<rparr>],
       t_required = Some [''serverId'']\<rparr>,
      \<lparr>t_name = ''get_server_stats'',
       t_description = ''Get statistics for a specific server'',
       t_properties =
         [\<lparr>p_name = ''serverId'', p_type = ''number'', p_enum = None,
           p_description = ''The ID of the server''\<rparr>],
       t_required = Some [''serverId'']\<rparr>,
      \<lparr>t_name = ''list_webapps'',
       t_description = ''List all web applications on a server'',
       t_properties =
         [\<lparr>p_name = ''serverId'', p_type = ''number'', p_enum = None,
           p_description = ''The ID of the server''\<rparr>,
          \<lparr>p_name = ''search'', p_type = ''string'', p_enum = None,
           p_description = ''Search web apps by name''\<rparr>,
          \<lparr>p_name = ''page'', p_type = ''number'', p_enum = None,
           p_description = ''Page number for pagination''\<rparr>],
       t_required = Some [''serverId'']\<rparr>,
      \<lparr>t_name = ''get_webapp'',
       t_description = ''Get detailed information about a specific web application'',
       t_properties =
         [\<lparr>p_name = ''serverId'', p_type = ''number'', p_enum = None,
           p_description = ''The ID of the server''\<rparr>,
          \<lparr>p_name = ''webappId'', p_type = ''number'', p_enum = None,
           p_description = ''The ID of the web application''\<rparr>],
       t_required = Some [''serverId'', ''webappId'']\<rparr>,
      \<lparr>t_name = ''create_webapp'',
       t_description = ''Create a new web application on a server'',
       t_properties =
         [\<lparr>p_name = ''serverId'', p_type = ''number'', p_enum = None,
           p_description = ''The ID of the server''\<rparr>,
          \<lparr>p_name = ''name'', p_type = ''string'', p_enum = None,
           p_description = ''Name of the web application''\<rparr>,
          \<lparr>p_name = ''domainName'', p_type = ''string'', p_enum = None,
           p_description = ''Domain name for the web application''\<rparr>,
          \<lparr>p_name = ''user'', p_type = ''string'', p_enum = None,
           p_description = ''System user for the web application''\<rparr>,
          \<lparr>p_name = ''phpVersion'', p_type = ''string'', p_enum = None,
           p_description = (''PHP version (e.g., '' @ [CHR 0x22] @ ''php80rc'' @ [CHR 0x22] @ '', '' @ [CHR 0x22] @ ''php81rc'' @ [CHR 0x22] @ '')'')\<rparr>,
          \<lparr>p_name = ''stack'', p_type = ''string'', p_enum = Some [''hybrid'', ''nativenginx''],
           p_description = ''Web server stack''\<rparr>,
          \<lparr>p_name = ''stackMode'', p_type = ''string'', p_enum = Some [''production'', ''development''],
           p_description = ''Stack mode''\<rparr>],
       t_required = Some [''serverId'', ''name'', ''domainName'', ''user'', ''phpVersion'', ''stack'', ''stackMode'']\<rparr>,
      \<lparr>t_name = ''list_databases'',
       t_description = ''List all databases on a server'',
       t_properties =
         [\<lparr>p_name = ''serverId'', p_type = ''number'', p_enum = None,
           p_description = ''The ID of the server''\<rparr>,
          \<lparr>p_name = ''search'', p_type = ''string'', p_enum = None,
           p_description = ''Search databases by name''\<rparr>,
          \<lparr>p_name = ''page'', p_type = ''number'', p_enum = None,
           p_description = ''Page number for pagination''\<rparr>],
       t_required = Some [''serverId'']\<rparr>,
      \<lparr>t_name = ''create_database'',
       t_description = ''Create a new database on a server'',
       t_properties =
         [\<lparr>p_name = ''serverId'', p_type = ''number'', p_enum = None,
           p_description = ''The ID of the server''\<rparr>,
          \<lparr>p_name = ''name'', p_type = ''string'', p_enum = None,
           p_description = ''Name of the database''\<rparr>,
          \<lparr>p_name = ''collation'', p_type = ''string'', p_enum = None,
           p_description = ''Database collation (default: utf8mb4_unicode_ci)''\<rparr>],
       t_required = Some [''serverId'', ''name'']\<rparr>,
      \<lparr>t_name = ''list_database_users'',
       t_description = ''List all database users on a server'',
       t_properties =
         [\<lparr>p_name = ''serverId'', p_type = ''number'', p_enum = None,
           p_description = ''The ID of the server''\<rparr>,
          \<lparr>p_name = ''search'', p_type = ''string'', p_enum = None,
           p_description = ''Search users by username''\<rparr>,
          \<lparr>p_name = ''page'', p_type = ''number'', p_enum = None,
           p_description = ''Page number for pagination''\<rparr>],
       t_required = Some [''serverId'']\<rparr>,
      \<lparr>t_name = ''create_database_user'',
       t_description = ''Create a new database user on a server'',
       t_properties =
         [\<lparr>p_name = ''serverId'', p_type = ''number'', p_enum = None,
           p_description = ''The ID of the server''\<rparr>,
          \<lparr>p_name = ''username'', p_type = ''string'', p_enum = None,
           p_description = ''Username for the database user''\<rparr>,
          \<lparr>p_name = ''password'', p_type = ''string'', p_enum = None,
           p_description = ''Password for the database user''\<rparr>],
       t_required = Some [''serverId'', ''username'', ''password'']\<rparr>,
      \<lparr>t_name = ''list_services'',
       t_description = ''List all services on a server with their status'',
       t_properties =
         [\<lparr>p_name = ''serverId'', p_type = ''number'', p_enum = None,
           p_description = ''The ID of the server''\<rparr>],
       t_required = Some [''serverId'']\<rparr>,
      \<lparr>t_name = ''control_service'',
       t_description = ''Start, stop, restart, or reload a service on a server'',
       t_properties =
         [\<lparr>p_name = ''serverId'', p_type = ''number'', p_enum = None,
           p_description = ''The ID of the server''\<rparr>,
          \<lparr>p_name = ''action'', p_type = ''string'', p_enum = Some [''start'', ''stop'', ''restart'', ''reload''],
           p_description = ''Action to perform on the service''\<rparr>,
          \<lparr>p_name = ''service'', p_type = ''string'', p_enum = Some [''nginx-rc'', ''apache2-rc'', ''mysql'', ''redis-server'', ''memcached'', ''beanstalkd'', ''supervisord''],
           p_description = ''Service name to control''\<rparr>],
       t_required = Some [''serverId'', ''action'', ''service'']\<rparr>,
      \<lparr>t_name = ''deploy_git'',
       t_description = ''Deploy code from git repository for a web application'',
       t_properties =
         [\<lparr>p_name = ''serverId'', p_type = ''number'', p_enum = None,
           p_description = ''The ID of the server''\<rparr>,
          \<lparr>p_name = ''webappId'', p_type = ''number'', p_enum = None,
           p_description = ''The ID of the web application''\<rparr>,
          \<lparr>p_name = ''gitId'', p_type = ''number'', p_enum = None,
           p_description = ''The ID of the git configuration''\<rparr>],
       t_required = Some [''serverId'', ''webappId'', ''gitId'']\<rparr>]"

text \<open>The names the listing advertises, and the fields a tool marks required.\<close>

definition tool_names :: "string list" where
  "tool_names = map t_name listTools"

definition required_fields :: "tool \<Rightarrow> string list" where
  "required_fields t = (case t_required t of None \<Rightarrow> [] | Some fs \<Rightarrow> fs)"

definition optional_fields :: "tool \<Rightarrow> string list" where
  "optional_fields t = filter (\<lambda>f. f \<notin> set (required_fields t)) (map p_name (t_properties t))"

definition find_tool :: "string \<Rightarrow> tool option" where
  "find_tool name = find (\<lambda>t. t_name t = name) listTools"

section \<open>Process start\<close>

text \<open>
  The top level of \<^verbatim>\<open>index-basic.js\<close>: the credentials and the base URL are read from
  the environment (after \<^verbatim>\<open>dotenv\<close> has filled it), the HTTP client is created with
  them, the server is constructed and run. A variable that is not set reads as
  \<^verbatim>\<open>undefined\<close> (\<open>None\<close>); the base URL falls back to its default when unset or empty.
\<close>

record environment =
  RUNCLOUD_API_KEY :: "string option"
  RUNCLOUD_API_SECRET :: "string option"
  RUNCLOUD_BASE_URL :: "string option"

record api_config =
  baseURL :: string
  auth_username :: "string option"
  auth_password :: "string option"
  headers :: "(string \<times> string) list"

datatype process_status = Exited nat | Serving api_config

definition default_base_url :: string where
  "default_base_url = ''https://manage.runcloud.io/api/v2''"

definition startup :: "environment \<Rightarrow> string list \<times> process_status" where
  "startup env =
     (let api = \<lparr>baseURL = (case RUNCLOUD_BASE_URL env of
                               None \<Rightarrow> default_base_url
                             | Some u \<Rightarrow> if u = [] then default_base_url else u),
                 auth_username = RUNCLOUD_API_KEY env,
                 auth_password = RUNCLOUD_API_SECRET env,
                 headers = [(''Content-Type'', ''application/json''),
                            (''Accept'', ''application/json'')]\<rparr>
      in ([''RunCloud MCP server running on stdio''], Serving api))"

text \<open>
  The two fuller entry files of the repository (their source follows the README text in
  \<^verbatim>\<open>src/README.md\<close>) have one more block between reading the environment and creating
  the client, under the comment \<^verbatim>\<open>// Validate credentials\<close>: when either credential is
  missing or empty, four lines go to standard error and the process exits with status 1.
  It returns here the diagnostic and the status, or \<open>None\<close> when the start goes on.
\<close>

definition validate_credentials :: "environment \<Rightarrow> (string list \<times> nat) option" where
  "validate_credentials env =
     (if RUNCLOUD_API_KEY env = None \<or> RUNCLOUD_API_KEY env = Some []
         \<or> RUNCLOUD_API_SECRET env = None \<or> RUNCLOUD_API_SECRET env = Some []
      then Some ([''Error: RUNCLOUD_API_KEY and RUNCLOUD_API_SECRET are required.'',
                  ''Please set them in:'',
                  ''1. MCP configuration env vars, or'',
                  ''2. .env file in the project root''], 1)
      else None)"

section \<open>Notions used in the statements\<close>

text \<open>A client that settles on the same outcome for every call.\<close>

definition always :: "http_outcome \<Rightarrow> http_client" where
  "always r oc = r"

text \<open>The outcomes on which the client resolves: a response with a status from 200 to 299.\<close>

definition accepted :: "http_outcome \<Rightarrow> bool" where
  "accepted r =
     (case r of Settled status data \<Rightarrow> 200 \<le> status \<and> status < 300 | NoResponse msg \<Rightarrow> False)"

text \<open>The tail shared by all handlers: the call goes to the client, the body is wrapped.\<close>

definition perform :: "http_client \<Rightarrow> outbound_call \<Rightarrow> envelope action" where
  "perform client oc = and_then (request client oc) (\<lambda>data. ret (text_result data))"

text \<open>The \<^verbatim>\<open>params\<close> object the four listing handlers build.\<close>

definition listing_params :: "js_object \<Rightarrow> js_object" where
  "listing_params a =
     (if truthy (lookup a ''search'') then [(''search'', lookup a ''search'')] else [])
     @ (if truthy (lookup a ''page'') then [(''page'', lookup a ''page'')] else [])"

text \<open>
  The identifiers that paths embed. A value converts when its string conversion does not
  throw; it is free of separators when, in addition, its text has no \<^verbatim>\<open>/\<close>.
\<close>

definition id_keys :: "string list" where
  "id_keys = [''serverId'', ''webappId'', ''gitId'']"

definition converts :: "jsval \<Rightarrow> bool" where
  "converts v = (case to_string v of Inl e \<Rightarrow> False | Inr s \<Rightarrow> True)"

definition slash_free :: "jsval \<Rightarrow> bool" where
  "slash_free v = (case to_string v of Inl e \<Rightarrow> False | Inr s \<Rightarrow> CHR ''/'' \<notin> set s)"

text \<open>
  The segments of an absolute path: each one is introduced by a separator, so they are as
  many as the separators.
\<close>

definition path_segments :: "string \<Rightarrow> nat" where
  "path_segments p = length (filter (\<lambda>c. c = CHR ''/'') p)"

text \<open>An argument object with one field left out, and the keys of a query or body.\<close>

definition omit :: "string \<Rightarrow> js_object \<Rightarrow> js_object" where
  "omit f a = filter (\<lambda>p. fst p \<noteq> f) a"

definition keys_of :: "js_object option \<Rightarrow> string set" where
  "keys_of obj = (case obj of None \<Rightarrow> {} | Some kvs \<Rightarrow> fst ` set kvs)"

text \<open>
  The characters of a number's text, and the shape every such text has: a digit or a
  minus sign first. A JSON value is a value with no \<^verbatim>\<open>undefined\<close> in it, its numbers
  of that shape: what a parsed body is.
\<close>

definition number_char :: "char \<Rightarrow> bool" where
  "number_char c = (c \<in> set ''0123456789-+.e'')"

definition number_text :: "string \<Rightarrow> bool" where
  "number_text t =
     (case t of
        [] \<Rightarrow> False
      | c # cs \<Rightarrow> c \<in> set ''0123456789-'' \<and> list_all number_char cs)"


text \<open>
  The code under which a rejection reaches the caller. The request dispatcher of the SDK,
  which is outside the repository, answers with the error's own code when the error has a
  numeric one, as an \<^verbatim>\<open>McpError\<close> does, and with \<^verbatim>\<open>InternalError\<close> otherwise.
\<close>

definition protocol_error_code :: "js_error \<Rightarrow> error_code" where
  "protocol_error_code e = (case e of McpError code msg \<Rightarrow> code | _ \<Rightarrow> InternalError)"

text \<open>Whether a text occurs inside another.\<close>

fun contains :: "string \<Rightarrow> string \<Rightarrow> bool" where
  "contains [] sub = (sub = [])"
| "contains (c # cs) sub = (take (length sub) (c # cs) = sub \<or> contains cs sub)"

section \<open>Reading a serialisation back\<close>

text \<open>
  A reader for the texts that \<open>serialize\<close> writes, at the same indentation. It is not
  part of the program: it serves to show that the text determines the value. The fuel
  bounds the nesting and the length of the lists read. \<open>render\<close> is the text of a
  value inside an array, where an undefined element is written \<^verbatim>\<open>null\<close>.
\<close>

fun strip_prefix :: "string \<Rightarrow> string \<Rightarrow> string option" where
  "strip_prefix [] s = Some s"
| "strip_prefix (p # ps) [] = None"
| "strip_prefix (p # ps) (c # cs) = (if p = c then strip_prefix ps cs else None)"







section \<open>Properties of the handlers\<close>

lemma and_then_value [simp]: "and_then ([], Inr x) f = f x"
  by (simp add: and_then_def split: prod.splits)

lemma and_then_error [simp]: "and_then (calls, Inl e) f = (calls, Inl e)"
  by (simp add: and_then_def)

lemma arg_Some [simp]: "arg (Some a) k = ([], Inr (lookup a k))"
  by (simp add: arg_def ret_def)

lemma arg_None [simp]: "arg None k = ([], Inl (TypeError (cannot_read ''undefined'' k)))"
  by (simp add: arg_def throw_def)

lemma interp_Some [simp]: "interp (Some a) k = ([], to_string (lookup a k))"
  by (simp add: interp_def)

lemma interp_None [simp]: "interp None k = ([], Inl (TypeError (cannot_read ''undefined'' k)))"
  by (simp add: interp_def)

lemma copy_if_truthy_Some [simp]:
  "copy_if_truthy (Some a) k params =
     ([], Inr (if truthy (lookup a k) then set_prop params k (lookup a k) else params))"
  by (simp add: copy_if_truthy_def ret_def)

lemma copy_if_truthy_None [simp]:
  "copy_if_truthy None k params = ([], Inl (TypeError (cannot_read ''undefined'' k)))"
  by (simp add: copy_if_truthy_def)

lemma and_then_sum:
  "and_then ([], r) f = (case r of Inl e \<Rightarrow> ([], Inl e) | Inr x \<Rightarrow> f x)"
  by (cases r) simp_all

lemma perform_eq:
  "perform client oc =
     ([oc], case client oc of
              Settled status data \<Rightarrow>
                if 200 \<le> status \<and> status < 300 then Inr (text_result data)
                else Inl (AxiosError (Some (status, data))
                           (''Request failed with status code '' @ show_nat status))
            | NoResponse msg \<Rightarrow> Inl (AxiosError None msg))"
  by (auto simp add: perform_def request_def and_then_def ret_def split: http_outcome.splits)

lemma fst_perform [simp]: "fst (perform client oc) = [oc]"
  by (simp add: perform_eq)

text \<open>
  What each handler does with an argument object: the call it hands to the client, or the
  error of a failed string conversion, before any call.
\<close>

lemma listServers_Some:
  "listServers client (Some a) =
     perform client \<lparr>oc_method = GET, oc_path = ''/servers'',
       oc_query = Some (listing_params a), oc_body = None\<rparr>"
  by (simp add: listServers_def perform_def api_get_def listing_params_def)

lemma getServer_Some:
  "getServer client (Some a) =
     (case to_string (lookup a ''serverId'') of
        Inl e \<Rightarrow> ([], Inl e)
      | Inr s \<Rightarrow> perform client \<lparr>oc_method = GET, oc_path = ''/servers/'' @ s,
                   oc_query = None, oc_body = None\<rparr>)"
  by (simp add: getServer_def perform_def api_get_def and_then_sum split: sum.splits)

lemma getServerStats_Some:
  "getServerStats client (Some a) =
     (case to_string (lookup a ''serverId'') of
        Inl e \<Rightarrow> ([], Inl e)
      | Inr s \<Rightarrow> perform client \<lparr>oc_method = GET, oc_path = ''/servers/'' @ s @ ''/stats'',
                   oc_query = None, oc_body = None\<rparr>)"
  by (simp add: getServerStats_def perform_def api_get_def and_then_sum split: sum.splits)

lemma listWebapps_Some:
  "listWebapps client (Some a) =
     (case to_string (lookup a ''serverId'') of
        Inl e \<Rightarrow> ([], Inl e)
      | Inr s \<Rightarrow> perform client \<lparr>oc_method = GET, oc_path = ''/servers/'' @ s @ ''/webapps'',
                   oc_query = Some (listing_params a), oc_body = None\<rparr>)"
  by (simp add: listWebapps_def perform_def api_get_def and_then_sum listing_params_def
           split: sum.splits)

lemma getWebapp_Some:
  "getWebapp client (Some a) =
     (case to_string (lookup a ''serverId'') of
        Inl e \<Rightarrow> ([], Inl e)
      | Inr s \<Rightarrow>
          (case to_string (lookup a ''webappId'') of
             Inl e \<Rightarrow> ([], Inl e)
           | Inr w \<Rightarrow> perform client \<lparr>oc_method = GET,
                        oc_path = ''/servers/'' @ s @ ''/webapps/'' @ w,
                        oc_query = None, oc_body = None\<rparr>))"
  by (simp add: getWebapp_def perform_def api_get_def and_then_sum split: sum.splits)

lemma createWebapp_Some:
  "createWebapp client (Some a) =
     (case to_string (lookup a ''serverId'') of
        Inl e \<Rightarrow> ([], Inl e)
      | Inr s \<Rightarrow> perform client \<lparr>oc_method = POST,
                   oc_path = ''/servers/'' @ s @ ''/webapps/custom'',
                   oc_query = None,
                   oc_body = Some [(''name'', lookup a ''name''),
                                   (''domainName'', lookup a ''domainName''),
                                   (''user'', lookup a ''user''),
                                   (''phpVersion'', lookup a ''phpVersion''),
                                   (''stack'', lookup a ''stack''),
                                   (''stackMode'', lookup a ''stackMode'')]\<rparr>)"
  by (simp add: createWebapp_def perform_def api_post_def and_then_sum split: sum.splits)

lemma listDatabases_Some:
  "listDatabases client (Some a) =
     (case to_string (lookup a ''serverId'') of
        Inl e \<Rightarrow> ([], Inl e)
      | Inr s \<Rightarrow> perform client \<lparr>oc_method = GET, oc_path = ''/servers/'' @ s @ ''/databases'',
                   oc_query = Some (listing_params a), oc_body = None\<rparr>)"
  by (simp add: listDatabases_def perform_def api_get_def and_then_sum listing_params_def
           split: sum.splits)

lemma createDatabase_Some:
  "createDatabase client (Some a) =
     (case to_string (lookup a ''serverId'') of
        Inl e \<Rightarrow> ([], Inl e)
      | Inr s \<Rightarrow> perform client \<lparr>oc_method = POST,
                   oc_path = ''/servers/'' @ s @ ''/databases'',
                   oc_query = None,
                   oc_body = Some ((''name'', lookup a ''name'')
                      # (if truthy (lookup a ''collation'')
                         then [(''collation'', lookup a ''collation'')] else []))\<rparr>)"
  by (simp add: createDatabase_def perform_def api_post_def and_then_sum split: sum.splits)

lemma listDatabaseUsers_Some:
  "listDatabaseUsers client (Some a) =
     (case to_string (lookup a ''serverId'') of
        Inl e \<Rightarrow> ([], Inl e)
      | Inr s \<Rightarrow> perform client \<lparr>oc_method = GET,
                   oc_path = ''/servers/'' @ s @ ''/databaseusers'',
                   oc_query = Some (listing_params a), oc_body = None\<rparr>)"
  by (simp add: listDatabaseUsers_def perform_def api_get_def and_then_sum listing_params_def
           split: sum.splits)

lemma createDatabaseUser_Some:
  "createDatabaseUser client (Some a) =
     (case to_string (lookup a ''serverId'') of
        Inl e \<Rightarrow> ([], Inl e)
      | Inr s \<Rightarrow> perform client \<lparr>oc_method = POST,
                   oc_path = ''/servers/'' @ s @ ''/databaseusers'',
                   oc_query = None,
                   oc_body = Some [(''username'', lookup a ''username''),
                                   (''password'', lookup a ''password'')]\<rparr>)"
  by (simp add: createDatabaseUser_def perform_def api_post_def and_then_sum split: sum.splits)

lemma listServices_Some:
  "listServices client (Some a) =
     (case to_string (lookup a ''serverId'') of
        Inl e \<Rightarrow> ([], Inl e)
      | Inr s \<Rightarrow> perform client \<lparr>oc_method = GET, oc_path = ''/servers/'' @ s @ ''/services'',
                   oc_query = None, oc_body = None\<rparr>)"
  by (simp add: listServices_def perform_def api_get_def and_then_sum split: sum.splits)

lemma controlService_Some:
  "controlService client (Some a) =
     (case to_string (lookup a ''serverId'') of
        Inl e \<Rightarrow> ([], Inl e)
      | Inr s \<Rightarrow> perform client \<lparr>oc_method = PATCH,
                   oc_path = ''/servers/'' @ s @ ''/services'',
                   oc_query = None,
                   oc_body = Some [(''action'', lookup a ''action''),
                                   (''realName'', lookup a ''service'')]\<rparr>)"
  by (simp add: controlService_def perform_def api_patch_def and_then_sum split: sum.splits)

lemma deployGit_Some:
  "deployGit client (Some a) =
     (case to_string (lookup a ''serverId'') of
        Inl e \<Rightarrow> ([], Inl e)
      | Inr s \<Rightarrow>
          (case to_string (lookup a ''webappId'') of
             Inl e \<Rightarrow> ([], Inl e)
           | Inr w \<Rightarrow>
               (case to_string (lookup a ''gitId'') of
                  Inl e \<Rightarrow> ([], Inl e)
                | Inr g \<Rightarrow> perform client \<lparr>oc_method = PUT,
                             oc_path = ''/servers/'' @ s @ ''/webapps/'' @ w
                                       @ ''/git/'' @ g @ ''/script'',
                             oc_query = None, oc_body = None\<rparr>)))"
  by (simp add: deployGit_def perform_def api_put_def and_then_sum split: sum.splits)

lemmas handler_Some =
  listServers_Some getServer_Some getServerStats_Some listWebapps_Some getWebapp_Some
  createWebapp_Some listDatabases_Some createDatabase_Some listDatabaseUsers_Some
  createDatabaseUser_Some listServices_Some controlService_Some deployGit_Some

text \<open>Without an argument object every handler throws at its first property read.\<close>

lemma handler_None:
  "listServers client None = ([], Inl (TypeError (cannot_read ''undefined'' ''search'')))"
  "getServer client None = ([], Inl (TypeError (cannot_read ''undefined'' ''serverId'')))"
  "getServerStats client None = ([], Inl (TypeError (cannot_read ''undefined'' ''serverId'')))"
  "listWebapps client None = ([], Inl (TypeError (cannot_read ''undefined'' ''search'')))"
  "getWebapp client None = ([], Inl (TypeError (cannot_read ''undefined'' ''serverId'')))"
  "createWebapp client None = ([], Inl (TypeError (cannot_read ''undefined'' ''serverId'')))"
  "listDatabases client None = ([], Inl (TypeError (cannot_read ''undefined'' ''search'')))"
  "createDatabase client None = ([], Inl (TypeError (cannot_read ''undefined'' ''name'')))"
  "listDatabaseUsers client None = ([], Inl (TypeError (cannot_read ''undefined'' ''search'')))"
  "createDatabaseUser client None = ([], Inl (TypeError (cannot_read ''undefined'' ''serverId'')))"
  "listServices client None = ([], Inl (TypeError (cannot_read ''undefined'' ''serverId'')))"
  "controlService client None = ([], Inl (TypeError (cannot_read ''undefined'' ''serverId'')))"
  "deployGit client None = ([], Inl (TypeError (cannot_read ''undefined'' ''serverId'')))"
  by (simp_all add: listServers_def getServer_def getServerStats_def listWebapps_def
        getWebapp_def createWebapp_def listDatabases_def createDatabase_def
        listDatabaseUsers_def createDatabaseUser_def listServices_def controlService_def
        deployGit_def)

lemma tool_names_eq:
  "tool_names = [''list_servers'', ''get_server'', ''get_server_stats'', ''list_webapps'',
     ''get_webapp'', ''create_webapp'', ''list_databases'', ''create_database'',
     ''list_database_users'', ''create_database_user'', ''list_services'',
     ''control_service'', ''deploy_git'']"
  by (simp add: tool_names_def listTools_def)

section \<open>Properties of the dispatcher\<close>

lemma lookup_absent: "f \<notin> fst ` set a \<Longrightarrow> lookup a f = Undefined"
proof -
  assume "f \<notin> fst ` set a"
  then have "map_of a f = None" by (simp add: map_of_eq_None_iff)
  then show ?thesis by (simp add: lookup_def)
qed

lemma find_tool_names: "find_tool name = Some t \<Longrightarrow> name \<in> set tool_names"
proof -
  assume "find_tool name = Some t"
  then have "t \<in> set listTools \<and> t_name t = name"
    unfolding find_tool_def by (auto simp add: find_Some_iff)
  then show ?thesis unfolding tool_names_def by auto
qed

lemma callTool_perform:
  "dispatch client name args = perform client oc \<Longrightarrow>
   callTool client name args =
     ([oc], case client oc of
              Settled status data \<Rightarrow>
                if 200 \<le> status \<and> status < 300 then Inr (text_result data)
                else Inl (catch_block (AxiosError (Some (status, data))
                           (''Request failed with status code '' @ show_nat status)))
            | NoResponse msg \<Rightarrow> Inl (AxiosError None msg))"
  by (auto simp add: callTool_def perform_eq catch_block_def split: http_outcome.splits)

lemma callTool_early:
  "dispatch client name args = ([], Inl e) \<Longrightarrow> callTool client name args = ([], Inl (catch_block e))"
  by (simp add: callTool_def)

lemma dispatch_simps:
  "dispatch client ''list_servers'' args = listServers client args"
  "dispatch client ''get_server'' args = getServer client args"
  "dispatch client ''get_server_stats'' args = getServerStats client args"
  "dispatch client ''list_webapps'' args = listWebapps client args"
  "dispatch client ''get_webapp'' args = getWebapp client args"
  "dispatch client ''create_webapp'' args = createWebapp client args"
  "dispatch client ''list_databases'' args = listDatabases client args"
  "dispatch client ''create_database'' args = createDatabase client args"
  "dispatch client ''list_database_users'' args = listDatabaseUsers client args"
  "dispatch client ''create_database_user'' args = createDatabaseUser client args"
  "dispatch client ''list_services'' args = listServices client args"
  "dispatch client ''control_service'' args = controlService client args"
  "dispatch client ''deploy_git'' args = deployGit client args"
  by (simp_all add: dispatch_def)



lemma tool_name_disj:
  "name \<in> set tool_names \<Longrightarrow>
     name = ''list_servers'' \<or> name = ''get_server'' \<or> name = ''get_server_stats''
     \<or> name = ''list_webapps'' \<or> name = ''get_webapp'' \<or> name = ''create_webapp''
     \<or> name = ''list_databases'' \<or> name = ''create_database''
     \<or> name = ''list_database_users'' \<or> name = ''create_database_user''
     \<or> name = ''list_services'' \<or> name = ''control_service'' \<or> name = ''deploy_git''"
  by (simp add: tool_names_eq)

lemma tool_name_cases:
  assumes "name \<in> set tool_names"
  obtains "name = ''list_servers''" | "name = ''get_server''" | "name = ''get_server_stats''"
    | "name = ''list_webapps''" | "name = ''get_webapp''" | "name = ''create_webapp''"
    | "name = ''list_databases''" | "name = ''create_database''"
    | "name = ''list_database_users''" | "name = ''create_database_user''"
    | "name = ''list_services''" | "name = ''control_service''" | "name = ''deploy_git''"
  using tool_name_disj [OF assms] by (elim disjE) (rule that; assumption)+

lemma dispatch_unknown:
  "name \<notin> set tool_names \<Longrightarrow>
   dispatch client name args = ([], Inl (McpError MethodNotFound (''Unknown tool: '' @ name)))"
  by (simp add: tool_names_eq dispatch_def throw_def)

lemma dispatch_shape:
  assumes "name \<in> set tool_names"
  shows "(\<exists>oc. dispatch client name (Some a) = perform client oc)
         \<or> (\<exists>e k. k \<in> set id_keys \<and> to_string (lookup a k) = Inl e
                   \<and> dispatch client name (Some a) = ([], Inl e))"
  using assms
  by (cases rule: tool_name_cases)
     (auto simp add: id_keys_def dispatch_simps handler_Some split: sum.splits)

lemma dispatch_converts:
  assumes "name \<in> set tool_names" and "\<forall>k \<in> set id_keys. converts (lookup a k)"
  shows "\<exists>oc. dispatch client name (Some a) = perform client oc"
  using dispatch_shape [OF assms(1), of client a] assms(2)
  by (auto simp add: converts_def)

lemma dispatch_None:
  assumes "name \<in> set tool_names"
  shows "\<exists>k. dispatch client name None = ([], Inl (TypeError (cannot_read ''undefined'' k)))"
  using assms
  by (cases rule: tool_name_cases) (simp add: dispatch_simps handler_None; blast)+

lemma to_string_error:
  "to_string v = Inl e \<Longrightarrow> e = TypeError ''Cannot convert object to primitive value''"
  "to_string_elems vs = Inl e \<Longrightarrow> e = TypeError ''Cannot convert object to primitive value''"
  by (induction v and vs arbitrary: e and e rule: to_string_to_string_elems.induct)
     (auto split: sum.splits if_splits)

lemma fst_callTool: "fst (callTool client name args) = fst (dispatch client name args)"
  by (simp add: callTool_def split: prod.splits sum.splits)

lemma catch_block_response:
  "(\<exists>msg. catch_block (AxiosError (Some r) m) = McpError InternalError msg)
   \<or> (\<exists>msg. catch_block (AxiosError (Some r) m) = TypeError msg)"
  by (cases r)
     (auto simp add: catch_block_def data_message_def split: sum.splits jsval.splits
           dest: to_string_error(1))

lemma catch_block_other [simp]:
  "catch_block (TypeError m) = TypeError m"
  "catch_block (McpError c m) = McpError c m"
  "catch_block (AxiosError None m) = AxiosError None m"
  by (simp_all add: catch_block_def)

lemma callTool_called:
  assumes "fst (callTool client name args) = [oc]"
  shows "dispatch client name args = perform client oc"
proof (cases "name \<in> set tool_names")
  case False
  then show ?thesis using assms by (simp add: fst_callTool dispatch_unknown)
next
  case True
  show ?thesis
  proof (cases args)
    case None
    then show ?thesis using assms dispatch_None [OF True, of client]
      by (auto simp add: fst_callTool)
  next
    case (Some a)
    then show ?thesis using assms dispatch_shape [OF True, of client a]
      by (auto simp add: fst_callTool)
  qed
qed

lemma lookup_omit: "lookup (omit f a) k = (if k = f then Undefined else lookup a k)"
proof -
  have "map_of (filter (\<lambda>p. fst p \<noteq> f) a) k = (if k = f then None else map_of a k)"
    by (induction a) auto
  then show ?thesis by (simp add: lookup_def omit_def)
qed

lemma serialize_defined: "v \<noteq> Undefined \<Longrightarrow> serialize ind v \<noteq> None"
  by (cases v) (simp_all add: Let_def)

lemma optional_fields_cases:
  assumes "find_tool name = Some t" and "f \<in> set (optional_fields t)"
  shows "(name \<in> set [''list_servers'', ''list_webapps'', ''list_databases'',
                       ''list_database_users'']
          \<and> f \<in> set [''search'', ''page''])
         \<or> (name = ''create_database'' \<and> f = ''collation'')"
  using find_tool_names [OF assms(1)] assms
  by (cases rule: tool_name_cases)
     (auto simp add: find_tool_def listTools_def optional_fields_def required_fields_def)

lemma number_text_no_slash: "number_text t \<Longrightarrow> CHR ''/'' \<notin> set t"
  by (cases t) (auto simp add: number_text_def number_char_def list_all_iff)

lemma slash_free_Num: "number_text t \<Longrightarrow> slash_free (Num t)"
  by (simp add: slash_free_def number_text_no_slash)

lemma path_segments_append [simp]:
  "path_segments (xs @ ys) = path_segments xs + path_segments ys"
  by (simp add: path_segments_def)

lemma path_segments_Cons [simp]:
  "path_segments (c # cs) = (if c = CHR ''/'' then 1 else 0) + path_segments cs"
  by (simp add: path_segments_def)

lemma path_segments_Nil [simp]: "path_segments [] = 0"
  by (simp add: path_segments_def)

lemma slash_free_segments:
  "slash_free v \<Longrightarrow> \<exists>s. to_string v = Inr s \<and> path_segments s = 0"
  by (auto simp add: slash_free_def path_segments_def filter_empty_conv split: sum.splits)

section \<open>Properties of the serialisation\<close>

lemma quote_example:
  "quote [CHR ''a'', CHR 0x22, CHR 0x5C, CHR 0x0A, CHR 0x09, CHR 0x01, CHR 0x1F, CHR 0x7F]
     = [CHR 0x22, CHR ''a'', CHR 0x5C, CHR 0x22, CHR 0x5C, CHR 0x5C, CHR 0x5C, CHR ''n'',
        CHR 0x5C, CHR ''t'', CHR 0x5C, CHR ''u'', CHR ''0'', CHR ''0'', CHR ''0'', CHR ''1'',
        CHR 0x5C, CHR ''u'', CHR ''0'', CHR ''0'', CHR ''1'', CHR ''f'', CHR 0x7F, CHR 0x22]"
  by (simp add: quote_def escape_char_def hex_digit_def digit_char_def)

lemma strip_prefix_append [simp]: "strip_prefix (p @ q) (p @ s) = strip_prefix q s"
  by (induction p) simp_all

lemma strip_prefix_self [simp]: "strip_prefix p (p @ s) = Some s"
  using strip_prefix_append [of p "[]" s] by simp







lemma not_number_char_newline [simp]: "\<not> number_char (CHR 0x0A)" "\<not> number_char CHR '',''"
  by (simp_all add: number_char_def)







section \<open>Registry completeness\<close>

text \<open>
  C9. Every name that the listing endpoint advertises has an arm in the dispatcher's
  switch: calling a listed tool never fails with \<^verbatim>\<open>MethodNotFound\<close>, the unknown-tool
  error, whatever the arguments (those that satisfy the declared schema included) and
  whatever outcome the HTTP client settles on.
\<close>

theorem listed_tools_have_dispatch_arm:
  assumes "name \<in> set tool_names"
  shows "snd (callTool client name args) \<noteq> Inl (McpError MethodNotFound msg)"
proof (cases args)
  case None
  then show ?thesis using dispatch_None [OF assms, of client]
    by (auto simp add: callTool_def)
next
  case (Some a)
  from dispatch_shape [OF assms, of client a] show ?thesis
  proof (elim disjE exE conjE)
    fix oc assume "dispatch client name (Some a) = perform client oc"
    from callTool_perform [OF this] catch_block_response show ?thesis
      unfolding Some
      by (auto split: http_outcome.splits if_splits) (metis js_error.distinct js_error.inject error_code.distinct)+
  next
    fix e k assume "to_string (lookup a k) = Inl e" and "dispatch client name (Some a) = ([], Inl e)"
    then show ?thesis unfolding Some
      by (auto simp add: callTool_def dest: to_string_error(1))
  qed
qed

theorem listed_tools_have_dispatch_arm_witness:
  "''create_database'' \<in> set tool_names
   \<and> snd (callTool (always (Settled 200 Null)) ''create_database''
           (Some [(''serverId'', Num ''5''), (''name'', Str ''app_db'')]))
       \<noteq> Inl (McpError MethodNotFound ''Unknown tool: create_database'')"
  using listed_tools_have_dispatch_arm [of "''create_database''" "always (Settled 200 Null)"
          "Some [(''serverId'', Num ''5''), (''name'', Str ''app_db'')]"
          "''Unknown tool: create_database''"]
  by (simp add: tool_names_eq)

section \<open>Failures and their codes\<close>

text \<open>
  C5. A tool name that is not in the registry fails with an \<^verbatim>\<open>McpError\<close> of code
  \<^verbatim>\<open>MethodNotFound\<close>, before any call. Every failure of a registered tool reaches the
  caller under the one generic code \<^verbatim>\<open>InternalError\<close>: a rejection of the remote API
  as an \<^verbatim>\<open>McpError\<close> with that code, anything else through the SDK's default. The
  witness runs \<^verbatim>\<open>callTool("nonexistent_tool", {})\<close>.
\<close>

theorem failure_codes:
  "(name \<notin> set tool_names \<longrightarrow>
      callTool client name args
        = ([], Inl (McpError MethodNotFound (''Unknown tool: '' @ name))))
   \<and> (name \<in> set tool_names \<longrightarrow>
        (\<forall>e. snd (callTool client name args) = Inl e \<longrightarrow>
           protocol_error_code e = InternalError))"
proof (intro conjI impI allI)
  assume "name \<notin> set tool_names"
  then show "callTool client name args
        = ([], Inl (McpError MethodNotFound (''Unknown tool: '' @ name)))"
    by (simp add: callTool_early [OF dispatch_unknown])
next
  fix e
  assume listed: "name \<in> set tool_names" and fails: "snd (callTool client name args) = Inl e"
  show "protocol_error_code e = InternalError"
  proof (cases args)
    case None
    then show ?thesis using dispatch_None [OF listed, of client] fails
      by (auto simp add: callTool_def protocol_error_code_def)
  next
    case (Some a)
    from dispatch_shape [OF listed, of client a] show ?thesis
    proof (elim disjE exE conjE)
      fix oc assume "dispatch client name (Some a) = perform client oc"
      from callTool_perform [OF this] fails show ?thesis
        unfolding Some using catch_block_response
        by (auto simp add: protocol_error_code_def split: http_outcome.splits if_splits)
           (metis js_error.simps)+
    next
      fix e' k
      assume "to_string (lookup a k) = Inl e'"
        and "dispatch client name (Some a) = ([], Inl e')"
      then show ?thesis using fails unfolding Some
        by (auto simp add: callTool_def protocol_error_code_def dest: to_string_error(1))
    qed
  qed
qed

theorem failure_codes_witness:
  "''nonexistent_tool'' \<notin> set tool_names
   \<and> callTool (always (NoResponse ''Network Error'')) ''nonexistent_tool'' (Some [])
       = ([], Inl (McpError MethodNotFound ''Unknown tool: nonexistent_tool''))
   \<and> ''list_servers'' \<in> set tool_names
   \<and> snd (callTool (always (NoResponse ''Network Error'')) ''list_servers'' (Some []))
       = Inl (AxiosError None ''Network Error'')
   \<and> protocol_error_code (AxiosError None ''Network Error'') = InternalError"
  using failure_codes [of "''nonexistent_tool''" "always (NoResponse ''Network Error'')" "Some []"]
        failure_codes [of "''list_servers''" "always (NoResponse ''Network Error'')" "Some []"]
  by (simp add: tool_names_eq callTool_def dispatch_simps listServers_Some perform_eq always_def)

text \<open>
  C6, as stated: a rejection whose JSON body carries a \<^verbatim>\<open>message\<close> field fails with an
  error whose message contains that remote message. The catch block puts the field
  through a template literal whatever its type: on the 422 body
  \<^verbatim>\<open>{"message": {"name": "Name already taken"}}\<close> the error message is
  \<^verbatim>\<open>RunCloud API Error: [object Object]\<close>, which has nothing of the remote text.
\<close>

theorem remote_message_counterexample:
  "snd (callTool (always (Settled 422 (Obj [(''message'', Obj [(''name'', Str ''Name already taken'')])])))
          ''create_database'' (Some [(''serverId'', Num ''5''), (''name'', Str ''app_db'')]))
     = Inl (McpError InternalError ''RunCloud API Error: [object Object]'')
   \<and> \<not> contains ''RunCloud API Error: [object Object]'' ''Name already taken''"
  by (simp add: callTool_def dispatch_simps createDatabase_Some lookup_def perform_eq always_def
        catch_block_def data_message_def)

text \<open>
  C6, amended. When the response that the HTTP client settles on for the invocation's
  call has a status outside 200..299 and a body that is a JSON object whose
  \<^verbatim>\<open>message\<close> is a string, the invocation fails with one \<^verbatim>\<open>McpError\<close> of code
  \<^verbatim>\<open>InternalError\<close>, whose message is \<^verbatim>\<open>RunCloud API Error: \<close> followed by that
  string or, when the string is empty, by the client's own message
  \<^verbatim>\<open>Request failed with status code N\<close>, N the three digits of the status. The
  witness is the 422 response
  \<^verbatim>\<open>{"message":"Name already taken"}\<close>.
\<close>

theorem remote_string_message_forwarded:
  assumes "fst (callTool client name args) = [oc]"
    and "client oc = Settled status (Obj body)"
    and "\<not> (200 \<le> status \<and> status < 300)" and "status < 1000"
    and "lookup body ''message'' = Str m"
  shows "snd (callTool client name args)
           = Inl (McpError InternalError
                   (''RunCloud API Error: ''
                    @ (if m = [] then ''Request failed with status code '' @ show_nat status
                       else m)))"
proof -
  from callTool_perform [OF callTool_called [OF assms(1)]] assms(2,3)
  have "snd (callTool client name args)
            = Inl (catch_block (AxiosError (Some (status, Obj body))
                     (''Request failed with status code '' @ show_nat status)))"
    by auto
  then show ?thesis using assms(5)
    by (simp add: catch_block_def data_message_def)
qed

theorem remote_string_message_forwarded_witness:
  "fst (callTool (always (Settled 422 (Obj [(''message'', Str ''Name already taken'')])))
          ''create_database'' (Some [(''serverId'', Num ''5''), (''name'', Str ''app_db'')]))
     = [\<lparr>oc_method = POST, oc_path = ''/servers/5/databases'', oc_query = None,
          oc_body = Some [(''name'', Str ''app_db'')]\<rparr>]
   \<and> always (Settled 422 (Obj [(''message'', Str ''Name already taken'')]))
        \<lparr>oc_method = POST, oc_path = ''/servers/5/databases'', oc_query = None,
          oc_body = Some [(''name'', Str ''app_db'')]\<rparr>
     = Settled 422 (Obj [(''message'', Str ''Name already taken'')])
   \<and> \<not> (200 \<le> (422::nat) \<and> (422::nat) < 300) \<and> (422::nat) < 1000
   \<and> lookup [(''message'', Str ''Name already taken'')] ''message'' = Str ''Name already taken''
   \<and> snd (callTool (always (Settled 422 (Obj [(''message'', Str ''Name already taken'')])))
          ''create_database'' (Some [(''serverId'', Num ''5''), (''name'', Str ''app_db'')]))
     = Inl (McpError InternalError ''RunCloud API Error: Name already taken'')"
proof -
  let ?client = "always (Settled 422 (Obj [(''message'', Str ''Name already taken'')]))"
  let ?args = "Some [(''serverId'', Num ''5''), (''name'', Str ''app_db'')]"
  let ?oc = "\<lparr>oc_method = POST, oc_path = ''/servers/5/databases'', oc_query = None,
          oc_body = Some [(''name'', Str ''app_db'')]\<rparr>"
  have calls: "fst (callTool ?client ''create_database'' ?args) = [?oc]"
    by (simp add: fst_callTool dispatch_simps createDatabase_Some lookup_def)
  have outcome: "?client ?oc = Settled 422 (Obj [(''message'', Str ''Name already taken'')])"
    by (simp add: always_def)
  have status: "\<not> (200 \<le> (422::nat) \<and> (422::nat) < 300)" "(422::nat) < 1000"
    by simp_all
  have msg: "lookup [(''message'', Str ''Name already taken'')] ''message'' = Str ''Name already taken''"
    by (simp add: lookup_def)
  from remote_string_message_forwarded [OF calls outcome status msg] calls outcome status msg
  show ?thesis by simp
qed

section \<open>Successful calls\<close>



section \<open>Optional fields\<close>

text \<open>
  C8. For every tool of the registry and every field of its schema that is not required,
  an argument object without that field produces a call whose query and body do not have
  the field as a key at all; and \<^verbatim>\<open>callTool("list_servers", {})\<close> makes the call
  \<^verbatim>\<open>GET /servers\<close> with an empty query object.
\<close>

theorem omitted_optional_field_absent:
  assumes "find_tool name = Some t" and "f \<in> set (optional_fields t)"
    and "f \<notin> fst ` set a"
  shows "(\<forall>oc \<in> set (fst (callTool client name (Some a))).
            f \<notin> keys_of (oc_query oc) \<and> f \<notin> keys_of (oc_body oc))
         \<and> fst (callTool client ''list_servers'' (Some []))
             = [\<lparr>oc_method = GET, oc_path = ''/servers'', oc_query = Some [], oc_body = None\<rparr>]"
proof
  have u: "lookup a f = Undefined" using assms(3) by (rule lookup_absent)
  from optional_fields_cases [OF assms(1,2)] u
  show "\<forall>oc \<in> set (fst (callTool client name (Some a))).
            f \<notin> keys_of (oc_query oc) \<and> f \<notin> keys_of (oc_body oc)"
    by (auto simp add: fst_callTool dispatch_simps handler_Some listing_params_def keys_of_def
          split: sum.splits)
next
  show "fst (callTool client ''list_servers'' (Some []))
             = [\<lparr>oc_method = GET, oc_path = ''/servers'', oc_query = Some [], oc_body = None\<rparr>]"
    by (simp add: fst_callTool dispatch_simps listServers_Some listing_params_def lookup_def)
qed

theorem omitted_optional_field_absent_witness:
  "find_tool ''create_database''
     = Some \<lparr>t_name = ''create_database'',
             t_description = ''Create a new database on a server'',
             t_properties =
               [\<lparr>p_name = ''serverId'', p_type = ''number'', p_enum = None,
                  p_description = ''The ID of the server''\<rparr>,
                \<lparr>p_name = ''name'', p_type = ''string'', p_enum = None,
                  p_description = ''Name of the database''\<rparr>,
                \<lparr>p_name = ''collation'', p_type = ''string'', p_enum = None,
                  p_description = ''Database collation (default: utf8mb4_unicode_ci)''\<rparr>],
             t_required = Some [''serverId'', ''name'']\<rparr>
   \<and> ''collation'' \<in> set (optional_fields \<lparr>t_name = ''create_database'',
             t_description = ''Create a new database on a server'',
             t_properties =
               [\<lparr>p_name = ''serverId'', p_type = ''number'', p_enum = None,
                  p_description = ''The ID of the server''\<rparr>,
                \<lparr>p_name = ''name'', p_type = ''string'', p_enum = None,
                  p_description = ''Name of the database''\<rparr>,
                \<lparr>p_name = ''collation'', p_type = ''string'', p_enum = None,
                  p_description = ''Database collation (default: utf8mb4_unicode_ci)''\<rparr>],
             t_required = Some [''serverId'', ''name'']\<rparr>)
   \<and> ''collation'' \<notin> fst ` set [(''serverId'', Num ''5''), (''name'', Str ''app_db'')]
   \<and> fst (callTool (always (Settled 200 Null)) ''create_database''
            (Some [(''serverId'', Num ''5''), (''name'', Str ''app_db'')]))
       = [\<lparr>oc_method = POST, oc_path = ''/servers/5/databases'', oc_query = None,
            oc_body = Some [(''name'', Str ''app_db'')]\<rparr>]
   \<and> ''collation'' \<notin> keys_of (oc_query \<lparr>oc_method = POST, oc_path = ''/servers/5/databases'',
                                  oc_query = None, oc_body = Some [(''name'', Str ''app_db'')]\<rparr>)
   \<and> ''collation'' \<notin> keys_of (oc_body \<lparr>oc_method = POST, oc_path = ''/servers/5/databases'',
                                  oc_query = None, oc_body = Some [(''name'', Str ''app_db'')]\<rparr>)
   \<and> fst (callTool (always (Settled 200 Null)) ''list_servers'' (Some []))
       = [\<lparr>oc_method = GET, oc_path = ''/servers'', oc_query = Some [], oc_body = None\<rparr>]"
proof -
  let ?t = "\<lparr>t_name = ''create_database'',
             t_description = ''Create a new database on a server'',
             t_properties =
               [\<lparr>p_name = ''serverId'', p_type = ''number'', p_enum = None,
                  p_description = ''The ID of the server''\<rparr>,
                \<lparr>p_name = ''name'', p_type = ''string'', p_enum = None,
                  p_description = ''Name of the database''\<rparr>,
                \<lparr>p_name = ''collation'', p_type = ''string'', p_enum = None,
                  p_description = ''Database collation (default: utf8mb4_unicode_ci)''\<rparr>],
             t_required = Some [''serverId'', ''name'']\<rparr>"
  let ?a = "[(''serverId'', Num ''5''), (''name'', Str ''app_db'')]"
  let ?oc = "\<lparr>oc_method = POST, oc_path = ''/servers/5/databases'', oc_query = None,
              oc_body = Some [(''name'', Str ''app_db'')]\<rparr>"
  have t: "find_tool ''create_database'' = Some ?t"
    by (simp add: find_tool_def listTools_def)
  have f: "''collation'' \<in> set (optional_fields ?t)"
    by (simp add: optional_fields_def required_fields_def)
  have a: "''collation'' \<notin> fst ` set ?a"
    by simp
  have calls: "fst (callTool (always (Settled 200 Null)) ''create_database'' (Some ?a)) = [?oc]"
    by (simp add: fst_callTool dispatch_simps createDatabase_Some lookup_def)
  from omitted_optional_field_absent [OF t f a, of "always (Settled 200 Null)"]
  have "''collation'' \<notin> keys_of (oc_query ?oc) \<and> ''collation'' \<notin> keys_of (oc_body ?oc)"
    and "fst (callTool (always (Settled 200 Null)) ''list_servers'' (Some []))
          = [\<lparr>oc_method = GET, oc_path = ''/servers'', oc_query = Some [], oc_body = None\<rparr>]"
    unfolding calls by simp_all
  with t f a calls show ?thesis by blast
qed

text \<open>
  C10. For \<^verbatim>\<open>list_servers\<close>, \<^verbatim>\<open>list_webapps\<close>, \<^verbatim>\<open>list_databases\<close> and
  \<^verbatim>\<open>list_database_users\<close> with \<^verbatim>\<open>search\<close> or \<^verbatim>\<open>page\<close>, and for
  \<^verbatim>\<open>create_database\<close> with \<^verbatim>\<open>collation\<close>: when the supplied value is falsy (page 0,
  an empty string), the invocation makes the same call and has the same result as with
  the field left out of the arguments.
\<close>

theorem falsy_optional_dropped:
  assumes "(name \<in> set [''list_servers'', ''list_webapps'', ''list_databases'',
                         ''list_database_users'']
            \<and> f \<in> set [''search'', ''page''])
           \<or> (name = ''create_database'' \<and> f = ''collation'')"
    and "\<not> truthy (lookup a f)"
  shows "callTool client name (Some a) = callTool client name (Some (omit f a))"
  using assms
  by (auto simp add: callTool_def dispatch_simps handler_Some listing_params_def lookup_omit
        split: sum.splits)

theorem falsy_optional_dropped_witness:
  "(''list_webapps'' \<in> set [''list_servers'', ''list_webapps'', ''list_databases'',
                               ''list_database_users'']
      \<and> ''page'' \<in> set [''search'', ''page''])
   \<and> \<not> truthy (lookup [(''serverId'', Num ''7''), (''page'', Num ''0'')] ''page'')
   \<and> omit ''page'' [(''serverId'', Num ''7''), (''page'', Num ''0'')] = [(''serverId'', Num ''7'')]
   \<and> callTool (always (Settled 200 (Arr []))) ''list_webapps''
         (Some [(''serverId'', Num ''7''), (''page'', Num ''0'')])
       = callTool (always (Settled 200 (Arr []))) ''list_webapps'' (Some [(''serverId'', Num ''7'')])"
  using falsy_optional_dropped [of "''list_webapps''" "''page''"
          "[(''serverId'', Num ''7''), (''page'', Num ''0'')]" "always (Settled 200 (Arr []))"]
  by (simp add: lookup_def omit_def)

section \<open>Validation\<close>

text \<open>
  C1, as stated: an invocation whose argument object omits a required field fails with
  \<^verbatim>\<open>InvalidArguments\<close> before any HTTP call. The program has no validation step:
  \<^verbatim>\<open>get_server\<close> invoked without its required \<^verbatim>\<open>serverId\<close> makes the call
  \<^verbatim>\<open>GET /servers/undefined\<close> and, on a response with status 200, succeeds.
\<close>

theorem missing_required_field_counterexample:
  "map_option required_fields (find_tool ''get_server'') = Some [''serverId'']
   \<and> lookup [] ''serverId'' = Undefined
   \<and> callTool (always (Settled 200 (Obj []))) ''get_server'' (Some [])
       = ([\<lparr>oc_method = GET, oc_path = ''/servers/undefined'', oc_query = None,
             oc_body = None\<rparr>],
          Inr \<lparr>content = [\<lparr>cb_type = ''text'', cb_text = Some ''{}''\<rparr>]\<rparr>)"
  by (simp add: find_tool_def listTools_def required_fields_def lookup_def
        callTool_def dispatch_simps getServer_Some perform_eq always_def text_result_def
        JSON_stringify_def)

text \<open>
  C1, amended. For every registered tool and every argument object that omits a required
  field, nothing is checked before the network: when the identifiers convert to strings
  (an omitted one does, as \<^verbatim>\<open>undefined\<close>), exactly one call goes to the HTTP client, and
  the invocation fails exactly when the client does not settle on a response with a
  status from 200 to 299 (a redirect that the client follows is not the response it
  settles on).
\<close>

theorem missing_required_field_not_checked:
  assumes "find_tool name = Some t" and "f \<in> set (required_fields t)"
    and "f \<notin> fst ` set a" and "\<forall>k \<in> set id_keys. converts (lookup a k)"
  shows "\<exists>oc. fst (callTool client name (Some a)) = [oc]
              \<and> isl (snd (callTool client name (Some a))) = (\<not> accepted (client oc))"
proof -
  from dispatch_converts [OF find_tool_names [OF assms(1)] assms(4), of client]
  obtain oc where "dispatch client name (Some a) = perform client oc" ..
  from callTool_perform [OF this]
  have "fst (callTool client name (Some a)) = [oc]
        \<and> isl (snd (callTool client name (Some a))) = (\<not> accepted (client oc))"
    by (auto simp add: accepted_def split: http_outcome.splits)
  then show ?thesis ..
qed

theorem missing_required_field_not_checked_witness:
  "find_tool ''get_server''
     = Some \<lparr>t_name = ''get_server'',
             t_description = ''Get detailed information about a specific server'',
             t_properties = [\<lparr>p_name = ''serverId'', p_type = ''number'', p_enum = None,
                               p_description = ''The ID of the server''\<rparr>],
             t_required = Some [''serverId'']\<rparr>
   \<and> ''serverId'' \<in> set (required_fields \<lparr>t_name = ''get_server'',
             t_description = ''Get detailed information about a specific server'',
             t_properties = [\<lparr>p_name = ''serverId'', p_type = ''number'', p_enum = None,
                               p_description = ''The ID of the server''\<rparr>],
             t_required = Some [''serverId'']\<rparr>)
   \<and> ''serverId'' \<notin> fst ` set ([] :: js_object)
   \<and> converts (lookup [] ''serverId'') \<and> converts (lookup [] ''webappId'')
   \<and> converts (lookup [] ''gitId'')
   \<and> fst (callTool (always (Settled 404 Null)) ''get_server'' (Some []))
       = [\<lparr>oc_method = GET, oc_path = ''/servers/undefined'', oc_query = None,
            oc_body = None\<rparr>]
   \<and> isl (snd (callTool (always (Settled 404 Null)) ''get_server'' (Some [])))
   \<and> \<not> accepted (always (Settled 404 Null)
                      \<lparr>oc_method = GET, oc_path = ''/servers/undefined'', oc_query = None,
                         oc_body = None\<rparr>)"
proof -
  let ?t = "\<lparr>t_name = ''get_server'',
             t_description = ''Get detailed information about a specific server'',
             t_properties = [\<lparr>p_name = ''serverId'', p_type = ''number'', p_enum = None,
                               p_description = ''The ID of the server''\<rparr>],
             t_required = Some [''serverId'']\<rparr>"
  let ?oc = "\<lparr>oc_method = GET, oc_path = ''/servers/undefined'', oc_query = None,
              oc_body = None\<rparr>"
  have t: "find_tool ''get_server'' = Some ?t"
    by (simp add: find_tool_def listTools_def)
  have f: "''serverId'' \<in> set (required_fields ?t)"
    by (simp add: required_fields_def)
  have a: "''serverId'' \<notin> fst ` set ([] :: js_object)"
    by simp
  have c: "converts (lookup [] ''serverId'')" "converts (lookup [] ''webappId'')"
    "converts (lookup [] ''gitId'')"
    by (simp_all add: converts_def lookup_def)
  then have ids: "\<forall>k \<in> set id_keys. converts (lookup [] k)"
    by (simp add: id_keys_def)
  have calls: "fst (callTool (always (Settled 404 Null)) ''get_server'' (Some [])) = [?oc]"
    by (simp add: fst_callTool dispatch_simps getServer_Some lookup_def)
  have rejected: "\<not> accepted (always (Settled 404 Null) ?oc)"
    by (simp add: accepted_def always_def)
  from missing_required_field_not_checked [OF t f a ids, of "always (Settled 404 Null)"]
    calls rejected
  have "isl (snd (callTool (always (Settled 404 Null)) ''get_server'' (Some [])))"
    by auto
  with t f a c calls rejected show ?thesis by blast
qed

section \<open>Defaults\<close>

text \<open>
  C2, as stated: \<^verbatim>\<open>create_database\<close> without \<^verbatim>\<open>collation\<close> sends the body
  \<^verbatim>\<open>{name, collation: "utf8mb4_general_ci"}\<close>. In \<^verbatim>\<open>index-basic.js\<close> the body of
  \<^verbatim>\<open>callTool("create_database", {serverId: 5, name: "app_db"})\<close> is \<^verbatim>\<open>{name: "app_db"}\<close>
  alone.
\<close>

theorem default_collation_counterexample:
  "fst (callTool (always (Settled 200 Null)) ''create_database''
          (Some [(''serverId'', Num ''5''), (''name'', Str ''app_db'')]))
     = [\<lparr>oc_method = POST, oc_path = ''/servers/5/databases'', oc_query = None,
          oc_body = Some [(''name'', Str ''app_db'')]\<rparr>]
   \<and> fst (callTool (always (Settled 200 Null)) ''create_database''
          (Some [(''serverId'', Num ''5''), (''name'', Str ''app_db'')]))
     \<noteq> [\<lparr>oc_method = POST, oc_path = ''/servers/5/databases'', oc_query = None,
          oc_body = Some [(''name'', Str ''app_db''),
                          (''collation'', Str ''utf8mb4_general_ci'')]\<rparr>]"
  by (simp add: fst_callTool dispatch_simps createDatabase_Some lookup_def)

text \<open>
  C2, amended. \<^verbatim>\<open>create_database\<close> invoked without \<^verbatim>\<open>collation\<close> makes the call
  \<^verbatim>\<open>POST /servers/{serverId}/databases\<close> whose body has the supplied name and no
  collation: the handler copies \<^verbatim>\<open>collation\<close> only under \<^verbatim>\<open>if (args.collation)\<close> and
  leaves the default to the remote API.
\<close>

theorem create_database_without_collation:
  assumes "''collation'' \<notin> fst ` set a" and "to_string (lookup a ''serverId'') = Inr s"
  shows "fst (callTool client ''create_database'' (Some a))
           = [\<lparr>oc_method = POST, oc_path = ''/servers/'' @ s @ ''/databases'',
                oc_query = None, oc_body = Some [(''name'', lookup a ''name'')]\<rparr>]"
  using assms(2) lookup_absent [OF assms(1)]
  by (simp add: fst_callTool dispatch_simps createDatabase_Some)

theorem create_database_without_collation_witness:
  "''collation'' \<notin> fst ` set [(''serverId'', Num ''5''), (''name'', Str ''app_db'')]
   \<and> to_string (lookup [(''serverId'', Num ''5''), (''name'', Str ''app_db'')] ''serverId'') = Inr ''5''
   \<and> fst (callTool (always (Settled 200 Null)) ''create_database''
            (Some [(''serverId'', Num ''5''), (''name'', Str ''app_db'')]))
       = [\<lparr>oc_method = POST, oc_path = ''/servers/5/databases'', oc_query = None,
            oc_body = Some [(''name'', Str ''app_db'')]\<rparr>]"
proof -
  have c: "''collation'' \<notin> fst ` set [(''serverId'', Num ''5''), (''name'', Str ''app_db'')]"
    by simp
  have s: "to_string (lookup [(''serverId'', Num ''5''), (''name'', Str ''app_db'')] ''serverId'') = Inr ''5''"
    by (simp add: lookup_def)
  from create_database_without_collation [OF c s, of "always (Settled 200 Null)"] c s
  show ?thesis by (simp add: lookup_def)
qed

section \<open>Path interpolation\<close>

text \<open>
  C3, as stated: an identifier value with path separators cannot add path segments. The
  template literal inserts the value as it is: \<^verbatim>\<open>get_server\<close> with \<^verbatim>\<open>serverId\<close>
  \<^verbatim>\<open>"1/2"\<close> calls \<^verbatim>\<open>/servers/1/2\<close>, three segments, where a number gives two.
\<close>

theorem path_separator_counterexample:
  "fst (callTool (always (Settled 200 Null)) ''get_server'' (Some [(''serverId'', Str ''1/2'')]))
     = [\<lparr>oc_method = GET, oc_path = ''/servers/1/2'', oc_query = None, oc_body = None\<rparr>]
   \<and> path_segments ''/servers/1/2'' = 3
   \<and> fst (callTool (always (Settled 200 Null)) ''get_server'' (Some [(''serverId'', Num ''12'')]))
     = [\<lparr>oc_method = GET, oc_path = ''/servers/12'', oc_query = None, oc_body = None\<rparr>]
   \<and> path_segments ''/servers/12'' = 2"
  by (simp add: fst_callTool dispatch_simps getServer_Some lookup_def)

text \<open>
  C3, amended. For every registered tool, when the text of each identifier value has no
  \<^verbatim>\<open>/\<close>, the path of the call has as many segments as with plain numeric identifiers;
  and the text of a number, the type the schemas declare for identifiers, never has one.
\<close>

theorem separator_free_identifier_keeps_segments:
  assumes "name \<in> set tool_names" and "\<forall>k \<in> set id_keys. slash_free (lookup a k)"
    and "number_text i" and "number_text j" and "number_text k"
  shows "map (\<lambda>oc. path_segments (oc_path oc)) (fst (callTool client name (Some a)))
           = map (\<lambda>oc. path_segments (oc_path oc))
               (fst (callTool client name
                  (Some [(''serverId'', Num i), (''webappId'', Num j), (''gitId'', Num k)])))
         \<and> slash_free (Num i)"
proof
  from assms(2) slash_free_segments
  obtain s w g where a: "to_string (lookup a ''serverId'') = Inr s" "path_segments s = 0"
    "to_string (lookup a ''webappId'') = Inr w" "path_segments w = 0"
    "to_string (lookup a ''gitId'') = Inr g" "path_segments g = 0"
    unfolding id_keys_def by (metis list.set_intros(1,2))
  from slash_free_segments [OF slash_free_Num [OF assms(3)]]
    slash_free_segments [OF slash_free_Num [OF assms(4)]]
    slash_free_segments [OF slash_free_Num [OF assms(5)]]
  have n: "path_segments i = 0" "path_segments j = 0" "path_segments k = 0"
    by simp_all
  let ?ids = "[(''serverId'', Num i), (''webappId'', Num j), (''gitId'', Num k)]"
  have l: "lookup ?ids ''serverId'' = Num i" "lookup ?ids ''webappId'' = Num j"
    "lookup ?ids ''gitId'' = Num k"
    by (simp_all add: lookup_def)
  from assms(1) show "map (\<lambda>oc. path_segments (oc_path oc)) (fst (callTool client name (Some a)))
           = map (\<lambda>oc. path_segments (oc_path oc))
               (fst (callTool client name
                  (Some [(''serverId'', Num i), (''webappId'', Num j), (''gitId'', Num k)])))"
    by (cases rule: tool_name_cases)
       (simp_all add: fst_callTool dispatch_simps handler_Some a n l)
next
  show "slash_free (Num i)" using assms(3) by (rule slash_free_Num)
qed

theorem separator_free_identifier_keeps_segments_witness:
  "''get_webapp'' \<in> set tool_names
   \<and> slash_free (lookup [(''serverId'', Str ''12''), (''webappId'', Num ''34'')] ''serverId'')
   \<and> slash_free (lookup [(''serverId'', Str ''12''), (''webappId'', Num ''34'')] ''webappId'')
   \<and> slash_free (lookup [(''serverId'', Str ''12''), (''webappId'', Num ''34'')] ''gitId'')
   \<and> number_text ''1'' \<and> number_text ''2.5'' \<and> number_text ''1e+21''
   \<and> map (\<lambda>oc. path_segments (oc_path oc))
        (fst (callTool (always (Settled 200 Null)) ''get_webapp''
                (Some [(''serverId'', Str ''12''), (''webappId'', Num ''34'')])))
      = map (\<lambda>oc. path_segments (oc_path oc))
          (fst (callTool (always (Settled 200 Null)) ''get_webapp''
                  (Some [(''serverId'', Num ''1''), (''webappId'', Num ''2.5''),
                         (''gitId'', Num ''1e+21'')])))
   \<and> slash_free (Num ''1'')"
proof -
  let ?a = "[(''serverId'', Str ''12''), (''webappId'', Num ''34'')]"
  have t: "''get_webapp'' \<in> set tool_names" by (simp add: tool_names_eq)
  have f: "slash_free (lookup ?a ''serverId'')" "slash_free (lookup ?a ''webappId'')"
    "slash_free (lookup ?a ''gitId'')"
    by (simp_all add: lookup_def slash_free_def)
  then have ids: "\<forall>k \<in> set id_keys. slash_free (lookup ?a k)"
    by (simp add: id_keys_def)
  have n: "number_text ''1''" "number_text ''2.5''" "number_text ''1e+21''"
    by (simp_all add: number_text_def number_char_def)
  from separator_free_identifier_keeps_segments
         [OF t ids n, of "always (Settled 200 Null)"] t f n
  show ?thesis by blast
qed

section \<open>Credentials at start\<close>

text \<open>
  C4. The claim: when a credential is absent, the process exits with a non-zero status
  after a diagnostic and never serves. \<^verbatim>\<open>index-basic.js\<close> started without
  \<^verbatim>\<open>RUNCLOUD_API_KEY\<close> creates the client with an undefined user name and serves; the
  validation block of the fuller entry files exits with status 1 on the same environment.
\<close>

theorem startup_without_api_key:
  "startup \<lparr>RUNCLOUD_API_KEY = None, RUNCLOUD_API_SECRET = Some ''secret'',
            RUNCLOUD_BASE_URL = None\<rparr>
     = ([''RunCloud MCP server running on stdio''],
        Serving \<lparr>baseURL = ''https://manage.runcloud.io/api/v2'',
                 auth_username = None, auth_password = Some ''secret'',
                 headers = [(''Content-Type'', ''application/json''),
                            (''Accept'', ''application/json'')]\<rparr>)
   \<and> validate_credentials \<lparr>RUNCLOUD_API_KEY = None, RUNCLOUD_API_SECRET = Some ''secret'',
                            RUNCLOUD_BASE_URL = None\<rparr>
     = Some ([''Error: RUNCLOUD_API_KEY and RUNCLOUD_API_SECRET are required.'',
              ''Please set them in:'',
              ''1. MCP configuration env vars, or'',
              ''2. .env file in the project root''], 1)"
  by (simp add: startup_def validate_credentials_def default_base_url_def)

end
